theory Spec2Isabelle
  imports Main "HOL-Library.AList"
begin

section \<open>JavaScript values that travel as JSON\<close>

text \<open>
  Everything the handlers read (request bodies, blob-store records, local-storage entries)
  is a value produced by \<^verbatim>\<open>JSON.parse\<close>. An object is the list of its own properties in
  insertion order. Numbers are modelled as integers (time stamps in milliseconds);
  fractions and magnitudes from \<open>10^21\<close> on, whose rendering is a matter of floating
  point, are outside the model. A \<^typ>\<open>char\<close> stands for one code unit of a JavaScript
  string (restricted to the first 256), so \<^const>\<open>length\<close> is \<^verbatim>\<open>.length\<close>.
\<close>

datatype json =
    JNull
  | JBool bool
  | JNum int
  | JStr string
  | JArr "json list"
  | JObj "(string \<times> json) list"

datatype js_error =
    TypeError string
  | SyntaxError string
  | URIError string
  | Error string

fun message :: "js_error \<Rightarrow> string" where
  "message (TypeError m) = m"
| "message (SyntaxError m) = m"
| "message (URIError m) = m"
| "message (Error m) = m"

text \<open>\<^verbatim>\<open>Boolean(v)\<close>, \<^verbatim>\<open>!v\<close>, \<^verbatim>\<open>v || d\<close>, \<^verbatim>\<open>v ? a : b\<close>.\<close>

fun truthy :: "json \<Rightarrow> bool" where
  "truthy JNull = False"
| "truthy (JBool b) = b"
| "truthy (JNum n) = (n \<noteq> 0)"
| "truthy (JStr s) = (s \<noteq> [])"
| "truthy (JArr xs) = True"
| "truthy (JObj kvs) = True"

text \<open>\<^verbatim>\<open>Array.isArray(v)\<close> and \<^verbatim>\<open>typeof v === "object"\<close> (which holds of \<^verbatim>\<open>null\<close> too).\<close>

fun isArray :: "json \<Rightarrow> bool" where
  "isArray (JArr xs) = True"
| "isArray v = False"

fun typeof_object :: "json \<Rightarrow> bool" where
  "typeof_object JNull = True"
| "typeof_object (JArr xs) = True"
| "typeof_object (JObj kvs) = True"
| "typeof_object v = False"

text \<open>
  \<^verbatim>\<open>v?.k\<close> for a property name \<open>k\<close> that no built-in prototype defines (the handlers read
  \<^verbatim>\<open>content\<close>, \<^verbatim>\<open>imageDataUrl\<close>, \<^verbatim>\<open>id\<close>, \<^verbatim>\<open>token\<close>, \<^verbatim>\<open>editToken\<close>, \<^verbatim>\<open>error\<close>):
  \<open>None\<close> is \<^verbatim>\<open>undefined\<close>. Only an object has such a property; on a primitive or an
  array the read gives \<^verbatim>\<open>undefined\<close>, and \<^verbatim>\<open>?.\<close> gives \<^verbatim>\<open>undefined\<close> on \<^verbatim>\<open>null\<close>.
\<close>

fun get_field :: "json \<Rightarrow> string \<Rightarrow> json option" where
  "get_field (JObj kvs) k = map_of kvs k"
| "get_field v k = None"

text \<open>\<^verbatim>\<open>x ?? d\<close>: the default replaces \<^verbatim>\<open>undefined\<close> and \<^verbatim>\<open>null\<close> only.\<close>

fun nullish_or :: "json option \<Rightarrow> json \<Rightarrow> json" where
  "nullish_or None d = d"
| "nullish_or (Some JNull) d = d"
| "nullish_or (Some v) d = v"

subsection \<open>Conversion to string\<close>

fun dec_nat :: "nat \<Rightarrow> string" where
  "dec_nat n =
     (if n < 10 then [''0123456789'' ! n]
      else dec_nat (n div 10) @ [''0123456789'' ! (n mod 10)])"

declare dec_nat.simps [simp del]

definition Number_toString :: "int \<Rightarrow> string" where
  "Number_toString n = (if n < 0 then CHR ''-'' # dec_nat (nat (- n)) else dec_nat (nat n))"

fun join_comma :: "string list \<Rightarrow> string" where
  "join_comma [] = []"
| "join_comma [s] = s"
| "join_comma (s # t # ss) = s @ '','' @ join_comma (t # ss)"

fun those_strings :: "string option list \<Rightarrow> string list option" where
  "those_strings [] = Some []"
| "those_strings (None # xs) = None"
| "those_strings (Some s # xs) = map_option ((#) s) (those_strings xs)"

text \<open>
  \<^verbatim>\<open>String(v)\<close> and the conversion inside a template literal; \<open>None\<close> is the TypeError
  ``Cannot convert object to primitive value''. An object parsed from JSON converts through
  \<^verbatim>\<open>Object.prototype.toString\<close> unless it has an own property \<^verbatim>\<open>toString\<close>, which is then
  not callable, and \<^verbatim>\<open>valueOf\<close> never yields a primitive. An array converts through
  \<^verbatim>\<open>join\<close>, where \<^verbatim>\<open>null\<close> elements give the empty string.
\<close>

fun js_String :: "json \<Rightarrow> string option" where
  "js_String JNull = Some ''null''"
| "js_String (JBool b) = Some (if b then ''true'' else ''false'')"
| "js_String (JNum n) = Some (Number_toString n)"
| "js_String (JStr s) = Some s"
| "js_String (JArr xs) =
     map_option join_comma
       (those_strings (map (\<lambda>x. if x = JNull then Some [] else js_String x) xs))"
| "js_String (JObj kvs) =
     (if map_of kvs ''toString'' = None then Some ''[object Object]'' else None)"

definition cannot_convert :: js_error where
  "cannot_convert = TypeError ''Cannot convert object to primitive value''"

text \<open>\<^verbatim>\<open>String.prototype.trim\<close> on the code units below 256.\<close>

definition is_white_space :: "char \<Rightarrow> bool" where
  "is_white_space c \<longleftrightarrow> of_char c \<in> {9, 10, 11, 12, 13, 32, 160 :: nat}"

definition trim :: "string \<Rightarrow> string" where
  "trim s = rev (dropWhile is_white_space (rev (dropWhile is_white_space s)))"

text \<open>
  The own enumerable properties that \<^verbatim>\<open>{...v}\<close> and a rest pattern copy: an object's
  properties, an array's elements under their indices, a string's code units under theirs,
  nothing for the other primitives.
\<close>

fun own_properties :: "json \<Rightarrow> (string \<times> json) list" where
  "own_properties (JObj kvs) = kvs"
| "own_properties (JArr xs) = zip (map dec_nat [0..<length xs]) xs"
| "own_properties (JStr s) = zip (map dec_nat [0..<length s]) (map (\<lambda>c. JStr [c]) s)"
| "own_properties v = []"

section \<open>The blob store\<close>

text \<open>
  The store is the external key/value service: a finite map from keys to the JSON values
  written with \<^verbatim>\<open>setJSON\<close>. \<^verbatim>\<open>get(key, {type: "json"})\<close> answers \<^verbatim>\<open>null\<close> for a key
  that holds nothing. Failures of the service itself are outside the model.
\<close>

type_synonym store = "string \<rightharpoonup> json"

definition store_get :: "store \<Rightarrow> string \<Rightarrow> json" where
  "store_get s k = (case s k of None \<Rightarrow> JNull | Some v \<Rightarrow> v)"

definition store_setJSON :: "store \<Rightarrow> string \<Rightarrow> json \<Rightarrow> store" where
  "store_setJSON s k v = s(k \<mapsto> v)"

definition store_delete :: "store \<Rightarrow> string \<Rightarrow> store" where
  "store_delete s k = s(k := None)"

section \<open>Requests, responses and the values the runtime supplies\<close>

text \<open>
  \<open>Malformed m\<close> is a body on which \<^verbatim>\<open>req.json()\<close> throws a SyntaxError with message \<open>m\<close>;
  \<open>pathname\<close> is \<^verbatim>\<open>new URL(req.url).pathname\<close>.
\<close>

datatype req_body = Malformed string | Json json

record request =
  "method" :: string
  pathname :: string
  body :: req_body

record response =
  status :: nat
  headers :: "(string \<times> string) list"
  payload :: "json option"

text \<open>
  One reading each of \<^verbatim>\<open>Date.now()\<close>, \<^verbatim>\<open>crypto.randomUUID()\<close>,
  \<^verbatim>\<open>crypto.randomBytes(16).toString("hex")\<close> and
  \<^verbatim>\<open>Math.random().toString(36).slice(2, 11)\<close>, as the request being served gets them.
\<close>

record env =
  now :: int
  randomUUID :: string
  randomHex :: string
  randomSuffix :: string

type_synonym outcome = "(js_error + response) \<times> store"

definition json_response :: "json \<Rightarrow> nat \<Rightarrow> response" where
  "json_response data st =
     \<lparr>status = st,
      headers = [(''Content-Type'', ''application/json''), (''Cache-Control'', ''no-store'')],
      payload = Some data\<rparr>"

definition error_response :: "string \<Rightarrow> nat \<Rightarrow> response" where
  "error_response msg st = json_response (JObj [(''error'', JStr msg)]) st"

section \<open>The token-based notes function (src/unnamed/part_000)\<close>

definition INDEX_KEY :: string where "INDEX_KEY = ''notes:index''"
definition NOTE_PREFIX :: string where "NOTE_PREFIX = ''note:''"
definition MAX_CONTENT_CHARS :: nat where "MAX_CONTENT_CHARS = 2000"
definition MAX_IMAGE_DATAURL_CHARS :: nat where "MAX_IMAGE_DATAURL_CHARS = 350000"
definition MAX_NOTES :: nat where "MAX_NOTES = 500"
definition LIST_LIMIT :: nat where "LIST_LIMIT = 50"

definition cleanNote :: "json \<Rightarrow> json" where
  "cleanNote note =
     (if \<not> truthy note \<or> \<not> typeof_object note then JNull
      else JObj (AList.delete ''editToken'' (own_properties note)))"

fun readJson :: "req_body \<Rightarrow> json" where
  "readJson (Malformed m) = JObj []"
| "readJson (Json v) = v"

text \<open>\<^verbatim>\<open>(await store.get(INDEX_KEY, ...)) || []\<close> followed by the \<^verbatim>\<open>Array.isArray\<close> test.\<close>

definition or_empty_array :: "json \<Rightarrow> json" where
  "or_empty_array v = (if truthy v then v else JArr [])"

fun array_or_empty :: "json \<Rightarrow> json list" where
  "array_or_empty (JArr xs) = xs"
| "array_or_empty v = []"

definition read_index :: "store \<Rightarrow> json list" where
  "read_index s = array_or_empty (or_empty_array (store_get s INDEX_KEY))"

text \<open>\<^verbatim>\<open>String(body?.k ?? "")\<close>; \<open>None\<close> when the conversion throws.\<close>

definition string_field :: "json \<Rightarrow> string \<Rightarrow> string option" where
  "string_field b k = js_String (nullish_or (get_field b k) (JStr []))"

text \<open>\<^verbatim>\<open>body?.imageDataUrl ? String(body.imageDataUrl) : null\<close>: \<open>Some None\<close> is \<^verbatim>\<open>null\<close>.\<close>

definition image_field :: "json \<Rightarrow> string option option" where
  "image_field b =
     (case get_field b ''imageDataUrl'' of
        None \<Rightarrow> Some None
      | Some v \<Rightarrow> if truthy v then map_option Some (js_String v) else Some None)"

fun image_value :: "string option \<Rightarrow> json" where
  "image_value None = JNull"
| "image_value (Some u) = JStr u"

text \<open>
  The three checks that POST and PUT both make on the trimmed content and the image:
  \<open>Some r\<close> is the 400 response returned, \<open>None\<close> lets the request through.
\<close>

definition validate :: "string \<Rightarrow> string option \<Rightarrow> response option" where
  "validate content imageDataUrl =
     (if content = [] \<and> \<not> truthy (image_value imageDataUrl)
        then Some (error_response ''Empty note.'' 400)
      else if length content > MAX_CONTENT_CHARS
        then Some (error_response
               (''Note is too long (max '' @ dec_nat MAX_CONTENT_CHARS @ '' chars).'') 400)
      else if (case imageDataUrl of
                 None \<Rightarrow> False
               | Some u \<Rightarrow> u \<noteq> [] \<and> length u > MAX_IMAGE_DATAURL_CHARS)
        then Some (error_response ''Image is too large. Please upload a smaller image.'' 400)
      else None)"

definition handler_GET :: "store \<Rightarrow> outcome" where
  "handler_GET s =
     (let ids = take LIST_LIMIT (read_index s) in
      case those_strings (map js_String ids) of
        None \<Rightarrow> (Inl cannot_convert, s)
      | Some names \<Rightarrow>
          let notes = map (\<lambda>i. store_get s (NOTE_PREFIX @ i)) names;
              cleaned = filter truthy (map cleanNote notes)
          in (Inr (json_response (JArr cleaned) 200), s))"

definition handler_POST :: "env \<Rightarrow> store \<Rightarrow> request \<Rightarrow> outcome" where
  "handler_POST e s req =
     (let b = readJson (body req) in
      case string_field b ''content'' of
        None \<Rightarrow> (Inl cannot_convert, s)
      | Some raw \<Rightarrow>
         (case image_field b of
            None \<Rightarrow> (Inl cannot_convert, s)
          | Some imageDataUrl \<Rightarrow>
             (let content = trim raw in
              case validate content imageDataUrl of
                Some r \<Rightarrow> (Inr r, s)
              | None \<Rightarrow>
                 (let i = randomUUID e;
                      token = randomHex e;
                      note = JObj [(''id'', JStr i), (''content'', JStr content),
                                   (''imageDataUrl'', image_value imageDataUrl),
                                   (''createdAt'', JNum (now e)), (''updatedAt'', JNum (now e)),
                                   (''editToken'', JStr token)];
                      s1 = store_setJSON s (NOTE_PREFIX @ i) note;
                      indexArray = read_index s1;
                      newIndex = take MAX_NOTES (JStr i # filter (\<lambda>x. x \<noteq> JStr i) indexArray);
                      s2 = store_setJSON s1 INDEX_KEY (JArr newIndex)
                  in (Inr (json_response
                             (JObj [(''ok'', JBool True), (''note'', cleanNote note),
                                    (''token'', JStr token)]) 200), s2)))))"

definition handler_PUT :: "env \<Rightarrow> store \<Rightarrow> request \<Rightarrow> outcome" where
  "handler_PUT e s req =
     (let b = readJson (body req) in
      case string_field b ''id'' of
        None \<Rightarrow> (Inl cannot_convert, s)
      | Some i \<Rightarrow>
         (case string_field b ''token'' of
            None \<Rightarrow> (Inl cannot_convert, s)
          | Some token \<Rightarrow>
             if i = [] \<or> token = [] then (Inr (error_response ''Missing id/token.'' 400), s)
             else
              (let existing = store_get s (NOTE_PREFIX @ i) in
               if \<not> truthy existing then (Inr (error_response ''Note not found.'' 404), s)
               else if get_field existing ''editToken'' \<noteq> Some (JStr token)
                 then (Inr (error_response ''Forbidden.'' 403), s)
               else
                (case string_field b ''content'' of
                   None \<Rightarrow> (Inl cannot_convert, s)
                 | Some raw \<Rightarrow>
                    (case image_field b of
                       None \<Rightarrow> (Inl cannot_convert, s)
                     | Some imageDataUrl \<Rightarrow>
                        (let content = trim raw in
                         case validate content imageDataUrl of
                           Some r \<Rightarrow> (Inr r, s)
                         | None \<Rightarrow>
                            (let updated = JObj
                                   (AList.update ''updatedAt'' (JNum (now e))
                                     (AList.update ''imageDataUrl'' (image_value imageDataUrl)
                                       (AList.update ''content'' (JStr content)
                                         (own_properties existing))));
                                 s1 = store_setJSON s (NOTE_PREFIX @ i) updated
                             in (Inr (json_response
                                        (JObj [(''ok'', JBool True), (''note'', cleanNote updated)])
                                        200), s1))))))))"

definition handler_DELETE :: "store \<Rightarrow> request \<Rightarrow> outcome" where
  "handler_DELETE s req =
     (let b = readJson (body req) in
      case string_field b ''id'' of
        None \<Rightarrow> (Inl cannot_convert, s)
      | Some i \<Rightarrow>
         (case string_field b ''token'' of
            None \<Rightarrow> (Inl cannot_convert, s)
          | Some token \<Rightarrow>
             if i = [] \<or> token = [] then (Inr (error_response ''Missing id/token.'' 400), s)
             else
              (let existing = store_get s (NOTE_PREFIX @ i) in
               if \<not> truthy existing then (Inr (json_response (JObj [(''ok'', JBool True)]) 200), s)
               else if get_field existing ''editToken'' \<noteq> Some (JStr token)
                 then (Inr (error_response ''Forbidden.'' 403), s)
               else
                (let s1 = store_delete s (NOTE_PREFIX @ i);
                     indexArray = read_index s1;
                     newIndex = filter (\<lambda>x. x \<noteq> JStr i) indexArray;
                     s2 = store_setJSON s1 INDEX_KEY (JArr newIndex)
                 in (Inr (json_response (JObj [(''ok'', JBool True)]) 200), s2)))))"

text \<open>
  \<^verbatim>\<open>new Response("", {status})\<close>: the constructor throws a TypeError when it is given a
  body (the empty string is one) together with a null-body status (the message is the one
  of Node's implementation); otherwise the response has an empty text body.
\<close>

definition null_body_status :: "nat \<Rightarrow> bool" where
  "null_body_status st \<longleftrightarrow> st \<in> {101, 103, 204, 205, 304}"

definition empty_text_Response :: "nat \<Rightarrow> js_error + response" where
  "empty_text_Response st =
     (if null_body_status st
      then Inl (TypeError (''Response constructor: Invalid response status code '' @ dec_nat st))
      else Inr \<lparr>status = st, headers = [(''content-type'', ''text/plain;charset=UTF-8'')],
                payload = None\<rparr>)"

definition handler :: "env \<Rightarrow> store \<Rightarrow> request \<Rightarrow> outcome" where
  "handler e s req =
     (if method req = ''OPTIONS'' then (empty_text_Response 204, s)
      else if method req = ''GET'' then handler_GET s
      else if method req = ''POST'' then handler_POST e s req
      else if method req = ''PUT'' then handler_PUT e s req
      else if method req = ''DELETE'' then handler_DELETE s req
      else (Inr (error_response ''Method not allowed.'' 405), s))"

text \<open>The store after a sequence of requests, each served with its own runtime values.\<close>

fun serve_all :: "store \<Rightarrow> (env \<times> request) list \<Rightarrow> store" where
  "serve_all s [] = s"
| "serve_all s ((e, req) # rest) = serve_all (snd (handler e s req)) rest"

section \<open>The path-based notes function (src/unnamed/part_001)\<close>

text \<open>
  This variant keeps all notes in one array under one key of its own store, carries the
  note id in the path and has no edit tokens. Its whole body runs inside one
  \<^verbatim>\<open>try\<close>, whose \<^verbatim>\<open>catch\<close> answers 500.
\<close>

definition NOTES_KEY :: string where "NOTES_KEY = ''notes''"
definition MAX_IMAGE_DATA_URL_LENGTH :: nat where "MAX_IMAGE_DATA_URL_LENGTH = 2000000"
definition marker :: string where "marker = ''/.netlify/functions/notes/''"

text \<open>
  The store object of the blobs library has \<^verbatim>\<open>get\<close>, \<^verbatim>\<open>set\<close>, \<^verbatim>\<open>setJSON\<close>,
  \<^verbatim>\<open>delete\<close> and \<^verbatim>\<open>list\<close>, and no \<^verbatim>\<open>getJSON\<close>: the call
  \<^verbatim>\<open>store.getJSON(NOTES_KEY)\<close> throws a TypeError whatever the store holds (the message
  is V8's), so \<^verbatim>\<open>loadNotes\<close> never reaches its \<^verbatim>\<open>Array.isArray\<close> test.
\<close>

definition store_getJSON :: "store \<Rightarrow> string \<Rightarrow> js_error + json" where
  "store_getJSON s k = Inl (TypeError ''store.getJSON is not a function'')"

definition loadNotes :: "store \<Rightarrow> js_error + json list" where
  "loadNotes s =
     (case store_getJSON s NOTES_KEY of
        Inl err \<Rightarrow> Inl err
      | Inr notes \<Rightarrow> Inr (array_or_empty notes))"

definition saveNotes :: "store \<Rightarrow> json list \<Rightarrow> store" where
  "saveNotes s notes = store_setJSON s NOTES_KEY (JArr notes)"

text \<open>
  \<^verbatim>\<open>decodeURIComponent\<close> is the runtime's: it is a parameter, \<open>Inl\<close> when it throws its
  URIError.
\<close>

definition getNoteIdFromPath ::
  "(string \<Rightarrow> js_error + string) \<Rightarrow> string \<Rightarrow> js_error + string option" where
  "getNoteIdFromPath decode p =
     (if take (length marker) p \<noteq> marker then Inr None
      else let raw = drop (length marker) p in
        if raw = [] then Inr None
        else (case decode raw of Inl err \<Rightarrow> Inl err | Inr i \<Rightarrow> Inr (Some i)))"

definition normalizePayload :: "json \<Rightarrow> js_error + string \<times> string option" where
  "normalizePayload p =
     (let content = (case get_field p ''content'' of Some (JStr c) \<Rightarrow> trim c | _ \<Rightarrow> []);
          imageDataUrl = (case get_field p ''imageDataUrl'' of Some (JStr u) \<Rightarrow> Some u | _ \<Rightarrow> None)
      in if content = [] \<and> \<not> truthy (image_value imageDataUrl)
           then Inl (Error ''Content or image is required.'')
         else if (case imageDataUrl of
                    None \<Rightarrow> False
                  | Some u \<Rightarrow> u \<noteq> [] \<and> length u > MAX_IMAGE_DATA_URL_LENGTH)
           then Inl (Error ''Image is too large. Please choose a smaller image.'')
         else Inr (content, imageDataUrl))"

fun request_json :: "req_body \<Rightarrow> js_error + json" where
  "request_json (Malformed m) = Inl (SyntaxError m)"
| "request_json (Json v) = Inr v"

text \<open>
  \<^verbatim>\<open>note.id\<close> inside the callbacks of \<^verbatim>\<open>findIndex\<close> and \<^verbatim>\<open>filter\<close> throws on a
  \<^verbatim>\<open>null\<close> element (the message is V8's).
\<close>

definition null_id_error :: js_error where
  "null_id_error =
     TypeError (''Cannot read properties of null (reading '' @ [CHR 0x27] @ ''id''
                @ [CHR 0x27] @ '')'')"

fun findIndex_id :: "string \<Rightarrow> json list \<Rightarrow> js_error + nat option" where
  "findIndex_id i [] = Inr None"
| "findIndex_id i (n # ns) =
     (if n = JNull then Inl null_id_error
      else if get_field n ''id'' = Some (JStr i) then Inr (Some 0)
      else (case findIndex_id i ns of
              Inl err \<Rightarrow> Inl err
            | Inr None \<Rightarrow> Inr None
            | Inr (Some k) \<Rightarrow> Inr (Some (Suc k))))"

fun filter_other_ids :: "string \<Rightarrow> json list \<Rightarrow> js_error + json list" where
  "filter_other_ids i [] = Inr []"
| "filter_other_ids i (n # ns) =
     (if n = JNull then Inl null_id_error
      else (case filter_other_ids i ns of
              Inl err \<Rightarrow> Inl err
            | Inr rest \<Rightarrow> Inr (if get_field n ''id'' \<noteq> Some (JStr i) then n # rest else rest)))"

definition handler_001_GET :: "store \<Rightarrow> js_error + response \<times> store" where
  "handler_001_GET s =
     (case loadNotes s of
        Inl err \<Rightarrow> Inl err
      | Inr notes \<Rightarrow> Inr (json_response (JObj [(''notes'', JArr notes)]) 200, s))"

definition handler_001_POST :: "env \<Rightarrow> store \<Rightarrow> request \<Rightarrow> js_error + response \<times> store" where
  "handler_001_POST e s req =
     (case request_json (body req) of
        Inl err \<Rightarrow> Inl err
      | Inr p \<Rightarrow>
         (case normalizePayload p of
            Inl err \<Rightarrow> Inl err
          | Inr (content, imageDataUrl) \<Rightarrow>
             (let newNote = JObj
                    [(''id'', JStr (''note_'' @ Number_toString (now e) @ ''_'' @ randomSuffix e)),
                     (''content'', JStr content),
                     (''imageDataUrl'', image_value imageDataUrl),
                     (''createdAt'', JNum (now e)), (''updatedAt'', JNum (now e))]
              in case loadNotes s of
                   Inl err \<Rightarrow> Inl err
                 | Inr notes \<Rightarrow>
                     Inr (json_response (JObj [(''note'', newNote)]) 201,
                          saveNotes s (newNote # notes)))))"

definition handler_001_PUT ::
  "(string \<Rightarrow> js_error + string) \<Rightarrow> env \<Rightarrow> store \<Rightarrow> request \<Rightarrow> js_error + response \<times> store" where
  "handler_001_PUT decode e s req =
     (case getNoteIdFromPath decode (pathname req) of
        Inl err \<Rightarrow> Inl err
      | Inr None \<Rightarrow> Inr (error_response ''Note ID is required.'' 400, s)
      | Inr (Some noteId) \<Rightarrow>
         if noteId = [] then Inr (error_response ''Note ID is required.'' 400, s)
         else
          (case request_json (body req) of
             Inl err \<Rightarrow> Inl err
           | Inr p \<Rightarrow>
              (case normalizePayload p of
                 Inl err \<Rightarrow> Inl err
               | Inr (content, imageDataUrl) \<Rightarrow>
                  (case loadNotes s of
                     Inl err \<Rightarrow> Inl err
                   | Inr notes \<Rightarrow>
                      (case findIndex_id noteId notes of
                         Inl err \<Rightarrow> Inl err
                       | Inr None \<Rightarrow> Inr (error_response ''Note not found.'' 404, s)
                       | Inr (Some k) \<Rightarrow>
                          (let updatedNote = JObj
                                 (AList.update ''updatedAt'' (JNum (now e))
                                   (AList.update ''imageDataUrl'' (image_value imageDataUrl)
                                     (AList.update ''content'' (JStr content)
                                       (own_properties (notes ! k)))))
                           in Inr (json_response (JObj [(''note'', updatedNote)]) 200,
                                   saveNotes s (notes[k := updatedNote]))))))))"

definition handler_001_DELETE ::
  "(string \<Rightarrow> js_error + string) \<Rightarrow> store \<Rightarrow> request \<Rightarrow> js_error + response \<times> store" where
  "handler_001_DELETE decode s req =
     (case getNoteIdFromPath decode (pathname req) of
        Inl err \<Rightarrow> Inl err
      | Inr None \<Rightarrow> Inr (error_response ''Note ID is required.'' 400, s)
      | Inr (Some noteId) \<Rightarrow>
         if noteId = [] then Inr (error_response ''Note ID is required.'' 400, s)
         else
          (case loadNotes s of
             Inl err \<Rightarrow> Inl err
           | Inr notes \<Rightarrow>
              (case filter_other_ids noteId notes of
                 Inl err \<Rightarrow> Inl err
               | Inr filtered \<Rightarrow>
                  if length filtered = length notes
                  then Inr (error_response ''Note not found.'' 404, s)
                  else Inr (\<lparr>status = 204, headers = [], payload = None\<rparr>,
                            saveNotes s filtered))))"

definition handler_001 ::
  "(string \<Rightarrow> js_error + string) \<Rightarrow> env \<Rightarrow> store \<Rightarrow> request \<Rightarrow> response \<times> store" where
  "handler_001 decode e s req =
     (case (if method req = ''GET'' then handler_001_GET s
            else if method req = ''POST'' then handler_001_POST e s req
            else if method req = ''PUT'' then handler_001_PUT decode e s req
            else if method req = ''DELETE'' then handler_001_DELETE decode s req
            else Inr (error_response ''Method not allowed.'' 405, s)) of
        Inr result \<Rightarrow> result
      | Inl error \<Rightarrow>
          (error_response
             (if message error \<noteq> [] then message error else ''Internal server error.'') 500, s))"

section \<open>The client sync layer (main.js)\<close>

text \<open>
  A local-storage entry is a text; what the client does with it depends only on what
  \<^verbatim>\<open>JSON.parse\<close> makes of it: \<open>Garbage\<close> is a text it rejects (the empty text too, which
  \<^verbatim>\<open>loadJson\<close> treats alike), \<open>Stored v\<close> the text \<^verbatim>\<open>JSON.stringify(v)\<close>, which parses
  back to \<open>v\<close>. \<^verbatim>\<open>setItem\<close> throws when the quota is exceeded: \<open>room\<close> says whether it
  does not.
\<close>

datatype item = Garbage | Stored json

type_synonym localStorage = "string \<rightharpoonup> item"

definition CACHE_KEY :: string where "CACHE_KEY = ''simple-notes-app-cache-notes''"

definition loadJson :: "localStorage \<Rightarrow> string \<Rightarrow> json \<Rightarrow> json" where
  "loadJson ls k fallback =
     (case ls k of None \<Rightarrow> fallback | Some Garbage \<Rightarrow> fallback | Some (Stored v) \<Rightarrow> v)"

definition setItem :: "bool \<Rightarrow> localStorage \<Rightarrow> string \<Rightarrow> json \<Rightarrow> js_error + localStorage" where
  "setItem room ls k v = (if room then Inr (ls(k \<mapsto> Stored v)) else Inl (Error ''QuotaExceededError''))"

definition saveJson :: "bool \<Rightarrow> localStorage \<Rightarrow> string \<Rightarrow> json \<Rightarrow> localStorage" where
  "saveJson room ls k v = (case setItem room ls k v of Inl err \<Rightarrow> ls | Inr ls' \<Rightarrow> ls')"

text \<open>
  What \<^verbatim>\<open>fetch\<close> and \<^verbatim>\<open>res.text()\<close> give: the promise rejects (network error, or the
  12 second timer aborted the request), or a response arrives with a status and a body
  text that is empty, not JSON, or the JSON text of a value.
\<close>

datatype body_text = Empty_text | Invalid_text string | Json_text json

datatype fetch_result = Rejected js_error | Responded nat body_text

fun parse_text :: "body_text \<Rightarrow> js_error + json" where
  "parse_text Empty_text = Inr JNull"
| "parse_text (Invalid_text m) = Inl (SyntaxError m)"
| "parse_text (Json_text v) = Inr v"

definition res_ok :: "nat \<Rightarrow> bool" where
  "res_ok st \<longleftrightarrow> 200 \<le> st \<and> st \<le> 299"

fun apiRequest :: "fetch_result \<Rightarrow> js_error + json" where
  "apiRequest (Rejected err) = Inl err"
| "apiRequest (Responded st txt) =
     (case parse_text txt of
        Inl err \<Rightarrow> Inl err
      | Inr data \<Rightarrow>
          if \<not> res_ok st then
            (case (if truthy data \<and> truthy (nullish_or (get_field data ''error'') JNull)
                   then js_String (nullish_or (get_field data ''error'') JNull)
                   else Some (''Request failed ('' @ dec_nat st @ '')'')) of
               None \<Rightarrow> Inl cannot_convert
             | Some msg \<Rightarrow> Inl (Error msg))
          else Inr data)"

definition getAllNotes :: "bool \<Rightarrow> fetch_result \<Rightarrow> localStorage \<Rightarrow> (js_error + json) \<times> localStorage" where
  "getAllNotes room f ls =
     (case apiRequest f of
        Inr notes \<Rightarrow>
          if isArray notes then (Inr notes, saveJson room ls CACHE_KEY notes)
          else (Inr (JArr []), ls)
      | Inl error \<Rightarrow>
          (let cached = loadJson ls CACHE_KEY (JArr [])
           in (Inr (if isArray cached then cached else JArr []), ls)))"

section \<open>Example states and requests\<close>

text \<open>
  The store after one \<^verbatim>\<open>POST {content: "hi"}\<close> served at time 1000 with the id \<open>n1\<close> and
  the token \<open>abc\<close>, and requests as the client of this repository builds them.
\<close>

definition ex_env :: env where
  "ex_env = \<lparr>now = 1000, randomUUID = ''n1'', randomHex = ''abc'', randomSuffix = ''x''\<rparr>"

definition ex_note :: json where
  "ex_note = JObj [(''id'', JStr ''n1''), (''content'', JStr ''hi''), (''imageDataUrl'', JNull),
                   (''createdAt'', JNum 1000), (''updatedAt'', JNum 1000),
                   (''editToken'', JStr ''abc'')]"

definition ex_store :: store where
  "ex_store = [''note:n1'' \<mapsto> ex_note, ''notes:index'' \<mapsto> JArr [JStr ''n1'']]"

definition get_request :: request where
  "get_request = \<lparr>method = ''GET'', pathname = ''/.netlify/functions/notes'', body = Malformed []\<rparr>"

definition post_request :: "req_body \<Rightarrow> request" where
  "post_request b = \<lparr>method = ''POST'', pathname = ''/.netlify/functions/notes'', body = b\<rparr>"

definition put_request :: "string \<Rightarrow> string \<Rightarrow> string \<Rightarrow> request" where
  "put_request i token content =
     \<lparr>method = ''PUT'', pathname = ''/.netlify/functions/notes'',
      body = Json (JObj [(''id'', JStr i), (''token'', JStr token), (''content'', JStr content),
                         (''imageDataUrl'', JNull)])\<rparr>"

definition put_image_request :: "string \<Rightarrow> string \<Rightarrow> string \<Rightarrow> string \<Rightarrow> request" where
  "put_image_request i token content img =
     \<lparr>method = ''PUT'', pathname = ''/.netlify/functions/notes'',
      body = Json (JObj [(''id'', JStr i), (''token'', JStr token), (''content'', JStr content),
                         (''imageDataUrl'', JStr img)])\<rparr>"

definition delete_request :: "string \<Rightarrow> string \<Rightarrow> request" where
  "delete_request i token =
     \<lparr>method = ''DELETE'', pathname = ''/.netlify/functions/notes'',
      body = Json (JObj [(''id'', JStr i), (''token'', JStr token)])\<rparr>"

definition ex_env_later :: env where
  "ex_env_later = \<lparr>now = 2000, randomUUID = ''n2'', randomHex = ''def'', randomSuffix = ''y''\<rparr>"

definition ex_note_bye :: json where
  "ex_note_bye = JObj [(''id'', JStr ''n1''), (''content'', JStr ''bye''), (''imageDataUrl'', JNull),
                       (''createdAt'', JNum 1000), (''updatedAt'', JNum 2000),
                       (''editToken'', JStr ''abc'')]"

definition ex_store_bye :: store where
  "ex_store_bye = ex_store(''note:n1'' \<mapsto> ex_note_bye)"

definition ex_note_001 :: json where
  "ex_note_001 = JObj [(''id'', JStr ''note_1000_x''), (''content'', JStr ''hi''),
                       (''imageDataUrl'', JNull), (''createdAt'', JNum 1000),
                       (''updatedAt'', JNum 1000)]"

definition ex_store_001 :: store where
  "ex_store_001 = [''notes'' \<mapsto> JArr [ex_note_001]]"

text \<open>Two creates in a row, which draw the ids \<open>n1\<close> and \<open>n2\<close>.\<close>

definition ex_steps :: "(env \<times> request) list" where
  "ex_steps = [(ex_env, post_request (Json (JObj [(''content'', JStr ''hi'')]))),
               (ex_env_later, post_request (Json (JObj [(''content'', JStr ''yo'')])))]"

text \<open>A create that, against the odds, draws the id of the stored note again.\<close>

definition ex_env_again :: env where
  "ex_env_again = \<lparr>now = 3000, randomUUID = ''n1'', randomHex = ''ghi'', randomSuffix = ''z''\<rparr>"

definition options_request :: request where
  "options_request = \<lparr>method = ''OPTIONS'', pathname = ''/.netlify/functions/notes'',
                       body = Malformed []\<rparr>"

text \<open>A body whose \<^verbatim>\<open>content\<close> is the object \<^verbatim>\<open>{"toString": 1}\<close>.\<close>

definition ex_body_toString :: req_body where
  "ex_body_toString = Json (JObj [(''content'', JObj [(''toString'', JNum 1)])])"

text \<open>The example store with an index record that is an object, not an array.\<close>

definition ex_store_bad_index :: store where
  "ex_store_bad_index = ex_store(''notes:index'' \<mapsto> JObj [(''0'', JStr ''n1'')])"

section \<open>Notions used in the statements\<close>

text \<open>The recency index, as the handler reads it, lists no id twice.\<close>

definition index_distinct :: "store \<Rightarrow> bool" where
  "index_distinct s \<longleftrightarrow> distinct (read_index s)"


text \<open>
  A note as the data model wants it: content (trimmed) or image non-empty, content of at
  most 2000 characters, image of at most 350000.
\<close>

definition acceptable :: "string \<Rightarrow> string option \<Rightarrow> bool" where
  "acceptable content img \<longleftrightarrow>
     \<not> (content = [] \<and> (img = None \<or> img = Some []))
     \<and> length content \<le> 2000
     \<and> (case img of None \<Rightarrow> True | Some u \<Rightarrow> length u \<le> 350000)"

text \<open>\<^verbatim>\<open>note.updatedAt > note.createdAt\<close> for a stored note with numeric time stamps.\<close>

definition updated_after_created :: "json \<Rightarrow> bool" where
  "updated_after_created n \<longleftrightarrow>
     (case (get_field n ''createdAt'', get_field n ''updatedAt'') of
        (Some (JNum c), Some (JNum u)) \<Rightarrow> c < u
      | _ \<Rightarrow> False)"

section \<open>Verified properties\<close>

subsection \<open>Auxiliary facts\<close>

lemmas example_defs =
  ex_env_def ex_env_later_def ex_note_def ex_note_bye_def ex_store_def ex_store_bye_def
  get_request_def post_request_def put_request_def delete_request_def
  ex_note_001_def ex_store_001_def ex_env_again_def ex_steps_def
  ex_store_bad_index_def put_image_request_def options_request_def ex_body_toString_def

lemmas handler_defs =
  handler_def handler_GET_def handler_POST_def handler_PUT_def handler_DELETE_def
  string_field_def image_field_def validate_def cleanNote_def read_index_def or_empty_array_def
  store_get_def store_setJSON_def store_delete_def json_response_def error_response_def
  trim_def is_white_space_def NOTE_PREFIX_def INDEX_KEY_def MAX_CONTENT_CHARS_def
  MAX_IMAGE_DATAURL_CHARS_def MAX_NOTES_def LIST_LIMIT_def Let_def
  empty_text_Response_def null_body_status_def

lemma validate_status: "validate c u = Some r \<Longrightarrow> status r = 400"
  by (auto simp: validate_def error_response_def json_response_def split: if_splits)

lemma get_field_Some_obj:
  "get_field v k = Some x \<Longrightarrow> \<exists>kvs. v = JObj kvs \<and> map_of kvs k = Some x"
  by (cases v) auto

lemma store_get_obj: "store_get s k = JObj kvs \<longleftrightarrow> s k = Some (JObj kvs)"
  by (auto simp: store_get_def split: option.splits)

lemma store_get_Some: "s k = Some v \<Longrightarrow> store_get s k = v"
  by (simp add: store_get_def)

lemma handler_PUT: "method req = ''PUT'' \<Longrightarrow> handler e s req = handler_PUT e s req"
  by (simp add: handler_def)

text \<open>What a PUT answered 200 has read and written.\<close>

lemma handler_PUT_ok:
  assumes "handler_PUT e s req = (Inr r, s')" and "status r = 200"
  shows "\<exists>i token raw img kvs.
           string_field (readJson (body req)) ''id'' = Some i \<and> i \<noteq> [] \<and>
           string_field (readJson (body req)) ''token'' = Some token \<and> token \<noteq> [] \<and>
           s (NOTE_PREFIX @ i) = Some (JObj kvs) \<and>
           map_of kvs ''editToken'' = Some (JStr token) \<and>
           string_field (readJson (body req)) ''content'' = Some raw \<and>
           image_field (readJson (body req)) = Some img \<and>
           validate (trim raw) img = None \<and>
           s' = s(NOTE_PREFIX @ i \<mapsto> JObj
                  (AList.update ''updatedAt'' (JNum (now e))
                    (AList.update ''imageDataUrl'' (image_value img)
                      (AList.update ''content'' (JStr (trim raw)) kvs)))) \<and>
           r = json_response (JObj [(''ok'', JBool True), (''note'', cleanNote (JObj
                  (AList.update ''updatedAt'' (JNum (now e))
                    (AList.update ''imageDataUrl'' (image_value img)
                      (AList.update ''content'' (JStr (trim raw)) kvs)))))]) 200"
  using assms
  apply (simp add: handler_PUT_def Let_def split: option.splits if_splits)
      apply (auto simp: error_response_def json_response_def store_setJSON_def store_get_obj
                        store_get_Some
                  dest: validate_status dest!: get_field_Some_obj)
  done

lemma ex_put_bye:
  "handler ex_env_later ex_store (put_request ''n1'' ''abc'' ''bye'') =
     (Inr (json_response (JObj [(''ok'', JBool True), (''note'', cleanNote ex_note_bye)]) 200),
      ex_store_bye)"
  by (simp add: handler_defs example_defs)

lemma ex_put_bye_id:
  "string_field (readJson (body (put_request i t c))) ''id'' = Some i"
  "string_field (readJson (body (put_request i t c))) ''token'' = Some t"
  "string_field (readJson (body (put_request i t c))) ''content'' = Some c"
  "image_field (readJson (body (put_request i t c))) = Some None"
  "method (put_request i t c) = ''PUT''"
  by (simp_all add: put_request_def string_field_def image_field_def)

subsection \<open>Update keeps identity, creation time and token\<close>

text \<open>
  C8. A PUT answered 200 leaves every property of the stored note other than
  \<^verbatim>\<open>content\<close>, \<^verbatim>\<open>imageDataUrl\<close> and \<^verbatim>\<open>updatedAt\<close> as it was, in particular \<^verbatim>\<open>id\<close>,
  \<^verbatim>\<open>createdAt\<close> and \<^verbatim>\<open>editToken\<close>, and writes no other key of the store.
\<close>

theorem update_preserves_identity:
  assumes "method req = ''PUT''"
    and "handler e s req = (Inr r, s')"
    and "status r = 200"
    and "string_field (readJson (body req)) ''id'' = Some i"
  shows "get_field (store_get s' (NOTE_PREFIX @ i)) ''id''
           = get_field (store_get s (NOTE_PREFIX @ i)) ''id''
       \<and> get_field (store_get s' (NOTE_PREFIX @ i)) ''createdAt''
           = get_field (store_get s (NOTE_PREFIX @ i)) ''createdAt''
       \<and> get_field (store_get s' (NOTE_PREFIX @ i)) ''editToken''
           = get_field (store_get s (NOTE_PREFIX @ i)) ''editToken''
       \<and> (\<forall>k. k \<notin> {''content'', ''imageDataUrl'', ''updatedAt''} \<longrightarrow>
            get_field (store_get s' (NOTE_PREFIX @ i)) k
              = get_field (store_get s (NOTE_PREFIX @ i)) k)
       \<and> (\<forall>key. key \<noteq> NOTE_PREFIX @ i \<longrightarrow> s' key = s key)"
proof -
  from assms(1,2) have "handler_PUT e s req = (Inr r, s')"
    by (simp add: handler_PUT)
  from handler_PUT_ok [OF this assms(3)] assms(4)
  obtain raw img kvs where
      old: "s (NOTE_PREFIX @ i) = Some (JObj kvs)"
    and new: "s' = s(NOTE_PREFIX @ i \<mapsto> JObj
                  (AList.update ''updatedAt'' (JNum (now e))
                    (AList.update ''imageDataUrl'' (image_value img)
                      (AList.update ''content'' (JStr (trim raw)) kvs))))"
    by auto
  show ?thesis
    by (simp add: new old store_get_def update_conv')
qed

theorem update_preserves_identity_witness:
  "get_field (store_get ex_store_bye (NOTE_PREFIX @ ''n1'')) ''id''
     = get_field (store_get ex_store (NOTE_PREFIX @ ''n1'')) ''id''
   \<and> get_field (store_get ex_store_bye (NOTE_PREFIX @ ''n1'')) ''createdAt''
     = get_field (store_get ex_store (NOTE_PREFIX @ ''n1'')) ''createdAt''
   \<and> get_field (store_get ex_store_bye (NOTE_PREFIX @ ''n1'')) ''editToken''
     = get_field (store_get ex_store (NOTE_PREFIX @ ''n1'')) ''editToken''"
proof -
  have st: "status (json_response (JObj [(''ok'', JBool True), (''note'', cleanNote ex_note_bye)]) 200) = 200"
    by (simp add: json_response_def)
  from update_preserves_identity [OF ex_put_bye_id(5) ex_put_bye st ex_put_bye_id(1)]
  show ?thesis by blast
qed

lemma ex_store_note: "ex_store (NOTE_PREFIX @ ''n1'') = Some ex_note"
  by (simp add: ex_store_def NOTE_PREFIX_def)

lemma ex_note_token: "get_field ex_note ''editToken'' = Some (JStr ''abc'')"
  by (simp add: ex_note_def)

subsection \<open>Update with a wrong token\<close>

text \<open>
  C3, as amended. For a stored note, a non-empty id and a \<^emph>\<open>non-empty\<close> token that is not the
  note's \<^verbatim>\<open>editToken\<close>, PUT answers 403 ``Forbidden.'' and the store is the one before,
  whatever content and image the body carries.
\<close>

theorem update_wrong_token_forbidden:
  assumes "method req = ''PUT''"
    and "string_field (readJson (body req)) ''id'' = Some i" and "i \<noteq> []"
    and "string_field (readJson (body req)) ''token'' = Some token" and "token \<noteq> []"
    and "s (NOTE_PREFIX @ i) = Some note" and "truthy note"
    and "get_field note ''editToken'' \<noteq> Some (JStr token)"
  shows "handler e s req = (Inr (error_response ''Forbidden.'' 403), s)"
  using assms by (simp add: handler_PUT handler_PUT_def store_get_Some)

theorem update_wrong_token_forbidden_witness:
  "handler ex_env_later ex_store (put_request ''n1'' ''wrong'' ''bye'')
     = (Inr (error_response ''Forbidden.'' 403), ex_store)"
proof -
  have t: "truthy ex_note" by (simp add: ex_note_def)
  have ne: "get_field ex_note ''editToken'' \<noteq> Some (JStr ''wrong'')"
    by (simp add: ex_note_def)
  note f = ex_put_bye_id [of "''n1''" "''wrong''" "''bye''"]
  have nonempty: "''n1'' \<noteq> []" "''wrong'' \<noteq> []" by simp_all
  from update_wrong_token_forbidden
         [where s = ex_store and e = ex_env_later, OF f(5) f(1) nonempty(1) f(2) nonempty(2) ex_store_note t ne]
  show ?thesis .
qed

text \<open>
  The claim as stated fails for the empty token: it differs from the stored token, and the
  answer is 400 ``Missing id/token.'', not 403.
\<close>

theorem update_wrong_token_counterexample:
  "ex_store (NOTE_PREFIX @ ''n1'') = Some ex_note
   \<and> get_field ex_note ''editToken'' \<noteq> Some (JStr '''')
   \<and> handler ex_env_later ex_store (put_request ''n1'' '''' ''bye'')
       = (Inr (error_response ''Missing id/token.'' 400), ex_store)"
  by (simp add: ex_store_note ex_note_token handler_PUT handler_PUT_def ex_put_bye_id)

lemma validate_accepts: "acceptable c img \<Longrightarrow> validate c img = None"
  by (cases img)
     (auto simp: acceptable_def validate_def MAX_CONTENT_CHARS_def MAX_IMAGE_DATAURL_CHARS_def)


text \<open>A PUT that names a stored note, carries its token and brings a valid note is served.\<close>

lemma handler_PUT_valid:
  assumes "string_field (readJson (body req)) ''id'' = Some i" and "i \<noteq> []"
    and "string_field (readJson (body req)) ''token'' = Some token" and "token \<noteq> []"
    and "s (NOTE_PREFIX @ i) = Some stored"
    and "get_field stored ''editToken'' = Some (JStr token)"
    and "string_field (readJson (body req)) ''content'' = Some raw"
    and "image_field (readJson (body req)) = Some img"
    and "acceptable (trim raw) img"
  shows "handler_PUT e s req =
           (Inr (json_response (JObj [(''ok'', JBool True), (''note'', cleanNote (JObj
                  (AList.update ''updatedAt'' (JNum (now e))
                    (AList.update ''imageDataUrl'' (image_value img)
                      (AList.update ''content'' (JStr (trim raw)) (own_properties stored))))))])
                 200),
            s(NOTE_PREFIX @ i \<mapsto> JObj
                  (AList.update ''updatedAt'' (JNum (now e))
                    (AList.update ''imageDataUrl'' (image_value img)
                      (AList.update ''content'' (JStr (trim raw)) (own_properties stored))))))"
proof -
  from assms(6) have "truthy stored" by (cases stored) auto
  with assms validate_accepts [OF assms(9)] show ?thesis
    by (simp add: handler_PUT_def store_get_Some store_setJSON_def Let_def)
qed

subsection \<open>The time stamp of an update\<close>

text \<open>
  C4, as amended. For a stored note (its id and token non-empty, as the handler issues
  them) and a PUT that carries its token and a valid note, the update is answered 200,
  stores the clock reading taken while serving it as \<^verbatim>\<open>updatedAt\<close> and leaves
  \<^verbatim>\<open>createdAt\<close> as stored; so afterwards \<^verbatim>\<open>updatedAt > createdAt\<close> holds exactly when
  that reading is later than the stored \<^verbatim>\<open>createdAt\<close>.
\<close>

theorem update_stamps_clock_reading:
  assumes "method req = ''PUT''"
    and "string_field (readJson (body req)) ''id'' = Some i" and "i \<noteq> []"
    and "string_field (readJson (body req)) ''token'' = Some token" and "token \<noteq> []"
    and "s (NOTE_PREFIX @ i) = Some stored"
    and "get_field stored ''editToken'' = Some (JStr token)"
    and "string_field (readJson (body req)) ''content'' = Some raw"
    and "image_field (readJson (body req)) = Some img"
    and "acceptable (trim raw) img"
  shows "\<exists>r s'. handler e s req = (Inr r, s') \<and> status r = 200
           \<and> get_field (store_get s' (NOTE_PREFIX @ i)) ''updatedAt'' = Some (JNum (now e))
           \<and> get_field (store_get s' (NOTE_PREFIX @ i)) ''createdAt''
                = get_field stored ''createdAt''
           \<and> (\<forall>c. get_field stored ''createdAt'' = Some (JNum c)
                 \<longrightarrow> (updated_after_created (store_get s' (NOTE_PREFIX @ i)) \<longleftrightarrow> c < now e))"
proof -
  from assms(7) obtain kvs where stored: "stored = JObj kvs"
    by (cases stored) auto
  let ?updated = "JObj (AList.update ''updatedAt'' (JNum (now e))
                    (AList.update ''imageDataUrl'' (image_value img)
                      (AList.update ''content'' (JStr (trim raw)) (own_properties stored))))"
  let ?r = "json_response (JObj [(''ok'', JBool True), (''note'', cleanNote ?updated)]) 200"
  from assms(1) handler_PUT_valid [where s = s and e = e, OF assms(2-10)]
  have "handler e s req = (Inr ?r, s(NOTE_PREFIX @ i \<mapsto> ?updated))"
    by (simp add: handler_PUT)
  moreover have "status ?r = 200"
    by (simp add: json_response_def)
  moreover have "get_field (store_get (s(NOTE_PREFIX @ i \<mapsto> ?updated)) (NOTE_PREFIX @ i))
                   ''updatedAt'' = Some (JNum (now e))"
    by (simp add: store_get_def update_conv')
  moreover have "get_field (store_get (s(NOTE_PREFIX @ i \<mapsto> ?updated)) (NOTE_PREFIX @ i))
                   ''createdAt'' = get_field stored ''createdAt''"
    by (simp add: store_get_def update_conv' stored)
  moreover have "\<forall>c. get_field stored ''createdAt'' = Some (JNum c)
                 \<longrightarrow> (updated_after_created
                        (store_get (s(NOTE_PREFIX @ i \<mapsto> ?updated)) (NOTE_PREFIX @ i))
                      \<longleftrightarrow> c < now e)"
    by (simp add: store_get_def update_conv' stored updated_after_created_def)
  ultimately show ?thesis by blast
qed

theorem update_stamps_clock_reading_witness:
  "map_sum id status (fst (handler ex_env_later ex_store (put_request ''n1'' ''abc'' ''bye'')))
     = Inr 200
   \<and> get_field (store_get (snd (handler ex_env_later ex_store (put_request ''n1'' ''abc'' ''bye'')))
                  (NOTE_PREFIX @ ''n1'')) ''updatedAt'' = Some (JNum 2000)
   \<and> updated_after_created
        (store_get (snd (handler ex_env_later ex_store (put_request ''n1'' ''abc'' ''bye'')))
           (NOTE_PREFIX @ ''n1''))"
proof -
  note f = ex_put_bye_id [of "''n1''" "''abc''" "''bye''"]
  have nonempty: "''n1'' \<noteq> []" "''abc'' \<noteq> []" by simp_all
  have ok: "acceptable (trim ''bye'') None"
    by (simp add: acceptable_def trim_def is_white_space_def)
  have created: "get_field ex_note ''createdAt'' = Some (JNum 1000)"
    by (simp add: ex_note_def)
  from update_stamps_clock_reading
         [where s = ex_store and e = ex_env_later,
          OF f(5) f(1) nonempty(1) f(2) nonempty(2) ex_store_note ex_note_token f(3) f(4) ok]
  obtain r s' where
      h: "handler ex_env_later ex_store (put_request ''n1'' ''abc'' ''bye'') = (Inr r, s')"
    and st: "status r = 200"
    and u: "get_field (store_get s' (NOTE_PREFIX @ ''n1'')) ''updatedAt''
              = Some (JNum (now ex_env_later))"
    and c: "\<forall>c. get_field ex_note ''createdAt'' = Some (JNum c)
              \<longrightarrow> (updated_after_created (store_get s' (NOTE_PREFIX @ ''n1''))
                   \<longleftrightarrow> c < now ex_env_later)"
    by blast
  from c created have "updated_after_created (store_get s' (NOTE_PREFIX @ ''n1''))"
    by (simp add: ex_env_later_def)
  with h st u show ?thesis
    by (simp add: ex_env_later_def)
qed

text \<open>
  The claim as stated fails when the update is served in the millisecond of the creation:
  the note created at 1000 and updated at 1000 has \<^verbatim>\<open>updatedAt = createdAt\<close>.
\<close>

theorem update_same_millisecond_counterexample:
  "snd (handler ex_env Map.empty (post_request (Json (JObj [(''content'', JStr ''hi'')])))) = ex_store
   \<and> map_sum id status (fst (handler ex_env ex_store (put_request ''n1'' ''abc'' ''bye''))) = Inr 200
   \<and> get_field (store_get (snd (handler ex_env ex_store (put_request ''n1'' ''abc'' ''bye'')))
                  (NOTE_PREFIX @ ''n1'')) ''createdAt'' = Some (JNum 1000)
   \<and> get_field (store_get (snd (handler ex_env ex_store (put_request ''n1'' ''abc'' ''bye'')))
                  (NOTE_PREFIX @ ''n1'')) ''updatedAt'' = Some (JNum 1000)
   \<and> \<not> updated_after_created
          (store_get (snd (handler ex_env ex_store (put_request ''n1'' ''abc'' ''bye'')))
             (NOTE_PREFIX @ ''n1''))"
  by (simp add: handler_defs example_defs updated_after_created_def)

subsection \<open>Update with the right token and an invalid note\<close>




lemmas handler_001_defs =
  handler_001_def handler_001_GET_def handler_001_POST_def handler_001_PUT_def
  handler_001_DELETE_def getNoteIdFromPath_def normalizePayload_def loadNotes_def
  saveNotes_def marker_def NOTES_KEY_def MAX_IMAGE_DATA_URL_LENGTH_def null_id_error_def
  store_getJSON_def






subsection \<open>No response carries the edit token inside a note\<close>




lemma handler_DELETE: "method req = ''DELETE'' \<Longrightarrow> handler e s req = handler_DELETE s req"
  by (simp add: handler_def)

lemma handler_POST: "method req = ''POST'' \<Longrightarrow> handler e s req = handler_POST e s req"
  by (simp add: handler_def)

lemma store_get_None: "s k = None \<Longrightarrow> store_get s k = JNull"
  by (simp add: store_get_def)

lemma ex_delete_request:
  "method (delete_request i t) = ''DELETE''"
  "string_field (readJson (body (delete_request i t))) ''id'' = Some i"
  "string_field (readJson (body (delete_request i t))) ''token'' = Some t"
  by (simp_all add: delete_request_def string_field_def)

lemma note_key_not_index: "NOTE_PREFIX @ i \<noteq> INDEX_KEY"
  by (simp add: NOTE_PREFIX_def INDEX_KEY_def)

lemma read_index_set_note [simp]: "read_index (s(NOTE_PREFIX @ i := v)) = read_index s"
  using note_key_not_index [of i] by (auto simp add: read_index_def store_get_def)

lemma read_index_set_index [simp]: "read_index (s(INDEX_KEY \<mapsto> JArr xs)) = xs"
  by (simp add: read_index_def store_get_def or_empty_array_def)


lemma distinct_prepend:
  "distinct xs \<Longrightarrow> distinct (take n (x # filter (\<lambda>y. y \<noteq> x) xs))"
  by (rule distinct_take) simp

lemma handler_POST_index_distinct:
  "index_distinct s \<Longrightarrow> index_distinct (snd (handler_POST e s req))"
  by (auto simp: handler_POST_def Let_def store_setJSON_def index_distinct_def
           split: option.splits intro!: distinct_take)

lemma handler_PUT_index_distinct:
  "index_distinct s \<Longrightarrow> index_distinct (snd (handler_PUT e s req))"
  by (auto simp: handler_PUT_def Let_def store_setJSON_def index_distinct_def
           split: option.splits)

lemma handler_DELETE_index_distinct:
  "index_distinct s \<Longrightarrow> index_distinct (snd (handler_DELETE s req))"
  by (auto simp: handler_DELETE_def Let_def store_setJSON_def store_delete_def index_distinct_def
           split: option.splits)

lemma handler_GET_store: "snd (handler_GET s) = s"
  by (simp add: handler_GET_def Let_def split: option.splits)

lemma handler_index_distinct:
  "index_distinct s \<Longrightarrow> index_distinct (snd (handler e s req))"
  by (simp add: handler_def handler_GET_store handler_POST_index_distinct
                handler_PUT_index_distinct handler_DELETE_index_distinct)

lemma serve_all_index_distinct:
  "index_distinct s \<Longrightarrow> index_distinct (serve_all s steps)"
  by (induction steps arbitrary: s) (auto simp: handler_index_distinct)

subsection \<open>Deleting a note that does not exist\<close>

text \<open>
  C2, as amended. A DELETE with a \<^emph>\<open>non-empty\<close> id under which the store holds no note
  record and a non-empty token is answered 200 \<^verbatim>\<open>{ok: true}\<close>, and the store is the one
  before.
\<close>

theorem delete_missing_note:
  assumes "method req = ''DELETE''"
    and "string_field (readJson (body req)) ''id'' = Some i" and "i \<noteq> []"
    and "string_field (readJson (body req)) ''token'' = Some token" and "token \<noteq> []"
    and "s (NOTE_PREFIX @ i) = None"
  shows "handler e s req = (Inr (json_response (JObj [(''ok'', JBool True)]) 200), s)"
  using assms by (simp add: handler_DELETE handler_DELETE_def store_get_None)

theorem delete_missing_note_witness:
  "handler ex_env_later ex_store (delete_request ''n9'' ''abc'')
     = (Inr (json_response (JObj [(''ok'', JBool True)]) 200), ex_store)"
proof -
  note f = ex_delete_request [of "''n9''" "''abc''"]
  have nonempty: "''n9'' \<noteq> []" "''abc'' \<noteq> []" by simp_all
  have absent: "ex_store (NOTE_PREFIX @ ''n9'') = None"
    by (simp add: ex_store_def NOTE_PREFIX_def)
  from delete_missing_note
         [where s = ex_store and e = ex_env_later,
          OF f(1) f(2) nonempty(1) f(3) nonempty(2) absent]
  show ?thesis .
qed

text \<open>
  The claim as stated fails for the empty id: the store holds no record under it, and the
  DELETE that carries it with a non-empty token is answered 400 ``Missing id/token.''.
\<close>

theorem delete_missing_note_counterexample:
  "ex_store (NOTE_PREFIX @ '''') = None
   \<and> handler ex_env_later ex_store (delete_request '''' ''abc'')
       = (Inr (error_response ''Missing id/token.'' 400), ex_store)"
  by (simp add: handler_defs example_defs)

text \<open>A POST that brings a valid note is served, and this is what it writes.\<close>

lemma handler_POST_valid:
  assumes "string_field (readJson (body req)) ''content'' = Some raw"
    and "image_field (readJson (body req)) = Some img"
    and "acceptable (trim raw) img"
  shows "\<exists>r written.
           handler_POST e s req =
             (Inr r, s(NOTE_PREFIX @ randomUUID e \<mapsto> written,
                       INDEX_KEY \<mapsto> JArr (take MAX_NOTES
                          (JStr (randomUUID e)
                             # filter (\<lambda>x. x \<noteq> JStr (randomUUID e)) (read_index s)))))
           \<and> status r = 200"
  using assms validate_accepts [OF assms(3)]
  by (auto simp: handler_POST_def Let_def store_setJSON_def json_response_def)

subsection \<open>The recency index after a create\<close>

text \<open>
  C5. Start from a store whose index lists no id twice (the empty store, for one) and serve
  any sequence of requests. A create that follows (a POST with a valid note) is answered
  200 and leaves the index an array without duplicates, of at most 500 entries, with the
  new id in front: it is the new id followed by the former entries other than it, cut at
  500, so an id already listed has moved to the front.
\<close>

theorem create_index_invariant:
  assumes "index_distinct s0"
    and "s = serve_all s0 steps"
    and "method req = ''POST''"
    and "string_field (readJson (body req)) ''content'' = Some raw"
    and "image_field (readJson (body req)) = Some img"
    and "acceptable (trim raw) img"
  shows "\<exists>r s'. handler e s req = (Inr r, s') \<and> status r = 200
           \<and> s' INDEX_KEY = Some (JArr (read_index s'))
           \<and> distinct (read_index s')
           \<and> read_index s' \<noteq> [] \<and> hd (read_index s') = JStr (randomUUID e)
           \<and> length (read_index s') \<le> 500
           \<and> read_index s' = take 500 (JStr (randomUUID e)
                                 # filter (\<lambda>x. x \<noteq> JStr (randomUUID e)) (read_index s))"
proof -
  let ?new = "take 500 (JStr (randomUUID e)
                          # filter (\<lambda>x. x \<noteq> JStr (randomUUID e)) (read_index s))"
  from assms(1,2) have "distinct (read_index s)"
    using serve_all_index_distinct [of s0 steps] by (simp add: index_distinct_def)
  then have d: "distinct ?new"
    by (rule distinct_prepend)
  have front: "?new \<noteq> [] \<and> hd ?new = JStr (randomUUID e) \<and> length ?new \<le> 500"
    by (simp add: take_Suc_Cons [of 499, simplified])
  from handler_POST_valid [where s = s and e = e, OF assms(4-6)] assms(3)
  obtain r written where
      h: "handler e s req = (Inr r, s(NOTE_PREFIX @ randomUUID e \<mapsto> written,
                                     INDEX_KEY \<mapsto> JArr ?new))"
    and st: "status r = 200"
    by (auto simp: handler_POST MAX_NOTES_def)
  have "read_index (s(NOTE_PREFIX @ randomUUID e \<mapsto> written, INDEX_KEY \<mapsto> JArr ?new)) = ?new"
    by (rule read_index_set_index)
  with h st d front show ?thesis
    by (intro exI [of _ r]
              exI [of _ "s(NOTE_PREFIX @ randomUUID e \<mapsto> written, INDEX_KEY \<mapsto> JArr ?new)"])
       simp
qed

lemma ex_two_posts:
  "read_index (serve_all Map.empty ex_steps)
     = [JStr ''n2'', JStr ''n1'']"
  by (simp add: handler_defs example_defs)

theorem create_index_invariant_witness:
  "read_index (serve_all Map.empty ex_steps)
     = [JStr ''n2'', JStr ''n1'']
   \<and> map_sum id status
        (fst (handler ex_env_again
               (serve_all Map.empty ex_steps)
               (post_request (Json (JObj [(''content'', JStr ''again'')]))))) = Inr 200
   \<and> read_index
        (snd (handler ex_env_again
               (serve_all Map.empty ex_steps)
               (post_request (Json (JObj [(''content'', JStr ''again'')])))))
     = [JStr ''n1'', JStr ''n2'']"
proof -
  let ?req = "post_request (Json (JObj [(''content'', JStr ''again'')]))"
  have i0: "index_distinct Map.empty"
    by (simp add: index_distinct_def read_index_def store_get_def or_empty_array_def)
  have m: "method ?req = ''POST''" by (simp add: post_request_def)
  have c: "string_field (readJson (body ?req)) ''content'' = Some ''again''"
    by (simp add: post_request_def string_field_def)
  have im: "image_field (readJson (body ?req)) = Some None"
    by (simp add: post_request_def image_field_def)
  have ok: "acceptable (trim ''again'') None"
    by (simp add: acceptable_def trim_def is_white_space_def)
  from create_index_invariant
         [where s = "serve_all Map.empty ex_steps" and e = ex_env_again, OF i0 refl m c im ok]
  obtain r s' where
      h: "handler ex_env_again (serve_all Map.empty ex_steps) ?req = (Inr r, s')"
    and st: "status r = 200"
    and new: "read_index s' = take 500 (JStr (randomUUID ex_env_again)
                # filter (\<lambda>x. x \<noteq> JStr (randomUUID ex_env_again))
                    (read_index (serve_all Map.empty ex_steps)))"
    by blast
  from new have "read_index s' = [JStr ''n1'', JStr ''n2'']"
    by (simp add: ex_two_posts ex_env_again_def)
  with h st ex_two_posts show ?thesis
    by simp
qed

subsection \<open>A body that is not JSON\<close>

text \<open>
  C6, as amended. The token-based function reads a POST body that is not JSON as the empty
  object and answers 400 ``Empty note.'', the store being the one before. The path-based
  function has no such fallback: the SyntaxError thrown by \<^verbatim>\<open>request.json()\<close> reaches its
  \<^verbatim>\<open>catch\<close>, and the answer is 500 with the error's message (or ``Internal server
  error.'' if that is empty), the store being the one before.
\<close>

theorem post_malformed_body:
  "(method req = ''POST'' \<and> body req = Malformed m
     \<longrightarrow> readJson (body req) = JObj []
         \<and> handler e s req = (Inr (error_response ''Empty note.'' 400), s))
   \<and> (method req = ''POST'' \<and> body req = Malformed m
     \<longrightarrow> handler_001 decode e s req
           = (error_response (if m \<noteq> [] then m else ''Internal server error.'') 500, s))"
  by (simp add: handler_POST handler_POST_def string_field_def image_field_def validate_def
                trim_def handler_001_def handler_001_POST_def)

theorem post_malformed_body_witness:
  "handler ex_env_later ex_store (post_request (Malformed ''Unexpected token''))
     = (Inr (error_response ''Empty note.'' 400), ex_store)
   \<and> handler_001 Inr ex_env_later ex_store_001 (post_request (Malformed ''Unexpected token''))
     = (error_response ''Unexpected token'' 500, ex_store_001)"
proof -
  have a: "method (post_request (Malformed ''Unexpected token'')) = ''POST''
           \<and> body (post_request (Malformed ''Unexpected token'')) = Malformed ''Unexpected token''"
    by (simp add: post_request_def)
  from post_malformed_body
         [where req = "post_request (Malformed ''Unexpected token'')" and m = "''Unexpected token''"
            and e = ex_env_later and s = ex_store and decode = Inr] a
  have "handler ex_env_later ex_store (post_request (Malformed ''Unexpected token''))
          = (Inr (error_response ''Empty note.'' 400), ex_store)"
    by blast
  moreover
  from post_malformed_body
         [where req = "post_request (Malformed ''Unexpected token'')" and m = "''Unexpected token''"
            and e = ex_env_later and s = ex_store_001 and decode = Inr] a
  have "handler_001 Inr ex_env_later ex_store_001 (post_request (Malformed ''Unexpected token''))
          = (error_response ''Unexpected token'' 500, ex_store_001)"
    by simp
  ultimately show ?thesis by blast
qed

text \<open>
  The claim as stated fails in the path-based function: the POST whose body is not JSON is
  answered 500, a hard failure, and not the 400 of the validation.
\<close>

theorem post_malformed_body_counterexample:
  "handler_001 Inr ex_env_later ex_store_001 (post_request (Malformed ''Unexpected token''))
     = (error_response ''Unexpected token'' 500, ex_store_001)"
  by (simp add: handler_001_defs example_defs)





lemma ex_post_bad_index:
  "fst (handler ex_env_later ex_store_bad_index
          (post_request (Json (JObj [(''content'', JStr ''yo'')]))))
     = Inr (json_response
              (JObj [(''ok'', JBool True),
                     (''note'', JObj [(''id'', JStr ''n2''), (''content'', JStr ''yo''),
                                      (''imageDataUrl'', JNull), (''createdAt'', JNum 2000),
                                      (''updatedAt'', JNum 2000)]),
                     (''token'', JStr ''def'')]) 200)"
  by (simp add: handler_defs example_defs)




subsection \<open>An index record that is not an array\<close>




lemma apiRequest_not_ok: "\<not> res_ok st \<Longrightarrow> isl (apiRequest (Responded st txt))"
  by (cases "txt") (auto split: option.splits)

lemma getAllNotes_caches:
  assumes "apiRequest f = Inr (JArr ns)"
  shows "getAllNotes True f ls = (Inr (JArr ns), ls(CACHE_KEY \<mapsto> Stored (JArr ns)))"
  using assms by (simp add: getAllNotes_def saveJson_def setItem_def)

lemma getAllNotes_falls_back:
  assumes "isl (apiRequest f)"
  shows "getAllNotes room f ls
           = (Inr (if isArray (loadJson ls CACHE_KEY (JArr []))
                   then loadJson ls CACHE_KEY (JArr []) else JArr []), ls)"
  using assms by (cases "apiRequest f") (simp_all add: getAllNotes_def Let_def)

subsection \<open>The client falls back to its cache\<close>

text \<open>
  C7. \<^verbatim>\<open>getAllNotes\<close> never throws. After a call whose request succeeded with a list and
  that cached it, a call whose request fails (the fetch is rejected, by the network or by
  the timeout, or the status is not 2xx) returns exactly that list and leaves the cache as
  it is; with no cache entry a failing call returns the empty list.
\<close>

theorem getAllNotes_cache_fallback:
  "(\<exists>v. fst (getAllNotes room f ls) = Inr v)
   \<and> isl (apiRequest (Rejected err))
   \<and> (\<not> res_ok st \<longrightarrow> isl (apiRequest (Responded st txt)))
   \<and> (apiRequest f1 = Inr (JArr ns) \<and> getAllNotes True f1 ls0 = (r1, ls1) \<and> isl (apiRequest f2)
        \<longrightarrow> r1 = Inr (JArr ns) \<and> getAllNotes room2 f2 ls1 = (Inr (JArr ns), ls1))
   \<and> (ls CACHE_KEY = None \<and> isl (apiRequest f2)
        \<longrightarrow> getAllNotes room2 f2 ls = (Inr (JArr []), ls))"
proof (intro conjI impI)
  show "\<exists>v. fst (getAllNotes room f ls) = Inr v"
    by (cases "apiRequest f") (simp_all add: getAllNotes_def Let_def)
  show "isl (apiRequest (Rejected err))" by simp
  show "isl (apiRequest (Responded st txt))" if "\<not> res_ok st"
    using that by (rule apiRequest_not_ok)
  show "r1 = Inr (JArr ns)"
    if "apiRequest f1 = Inr (JArr ns) \<and> getAllNotes True f1 ls0 = (r1, ls1) \<and> isl (apiRequest f2)"
    using that by (auto simp: getAllNotes_caches)
  show "getAllNotes room2 f2 ls1 = (Inr (JArr ns), ls1)"
    if "apiRequest f1 = Inr (JArr ns) \<and> getAllNotes True f1 ls0 = (r1, ls1) \<and> isl (apiRequest f2)"
    using that by (auto simp: getAllNotes_caches getAllNotes_falls_back loadJson_def)
  show "getAllNotes room2 f2 ls = (Inr (JArr []), ls)"
    if "ls CACHE_KEY = None \<and> isl (apiRequest f2)"
    using that by (simp add: getAllNotes_falls_back loadJson_def)
qed

theorem getAllNotes_cache_fallback_witness:
  "getAllNotes True (Responded 200 (Json_text (JArr [cleanNote ex_note]))) Map.empty
     = (Inr (JArr [cleanNote ex_note]), [CACHE_KEY \<mapsto> Stored (JArr [cleanNote ex_note])])
   \<and> getAllNotes True (Responded 503 Empty_text) [CACHE_KEY \<mapsto> Stored (JArr [cleanNote ex_note])]
     = (Inr (JArr [cleanNote ex_note]), [CACHE_KEY \<mapsto> Stored (JArr [cleanNote ex_note])])
   \<and> getAllNotes True (Rejected (TypeError ''Failed to fetch'')) Map.empty
     = (Inr (JArr []), Map.empty)"
proof -
  let ?ok = "Responded 200 (Json_text (JArr [cleanNote ex_note]))"
  let ?ls = "[CACHE_KEY \<mapsto> Stored (JArr [cleanNote ex_note])]"
  have first: "getAllNotes True ?ok Map.empty = (Inr (JArr [cleanNote ex_note]), ?ls)"
    by (simp add: getAllNotes_def saveJson_def setItem_def res_ok_def)
  have a: "apiRequest ?ok = Inr (JArr [cleanNote ex_note])
           \<and> getAllNotes True ?ok Map.empty = (Inr (JArr [cleanNote ex_note]), ?ls)
           \<and> isl (apiRequest (Responded 503 Empty_text))"
    using first by (simp add: res_ok_def)
  have b: "(Map.empty :: localStorage) CACHE_KEY = None
           \<and> isl (apiRequest (Rejected (TypeError ''Failed to fetch'')))"
    by simp
  from getAllNotes_cache_fallback
         [where ?f1.0 = ?ok and ns = "[cleanNote ex_note]" and ?ls0.0 = Map.empty
            and ?r1.0 = "Inr (JArr [cleanNote ex_note])" and ?ls1.0 = ?ls
            and ?f2.0 = "Responded 503 Empty_text" and ?room2.0 = True] a
  have "getAllNotes True (Responded 503 Empty_text) ?ls = (Inr (JArr [cleanNote ex_note]), ?ls)"
    by blast
  moreover
  from getAllNotes_cache_fallback
         [where ls = Map.empty and ?f2.0 = "Rejected (TypeError ''Failed to fetch'')"
            and ?room2.0 = True] b
  have "getAllNotes True (Rejected (TypeError ''Failed to fetch'')) Map.empty
          = (Inr (JArr []), Map.empty)"
    by blast
  ultimately show ?thesis using first by blast
qed

end
